theory Spec2Isabelle
  imports Main "HOL-Library.Word"
begin

section \<open>JavaScript values\<close>

text \<open>
  The values the wrapper handles. A number is an integer from \<open>-2^53\<close> to \<open>2^53 - 1\<close>,
  each of which a JavaScript number holds exactly (a 54-bit word read as a signed
  integer). A string is the list of its characters, each with a code below 256. A
  function value carries its identity and its source text (what \<open>String(f)\<close> gives) and
  has no properties of its own. An object is a plain object, given as the list of its
  own properties in enumeration order: the array indices in ascending order first, then
  the other names in the order they were created.
\<close>

datatype jsval =
    JUndefined
  | JNull
  | JBool bool
  | JNum "54 word"
  | JStr string
  | JArr "jsval list"
  | JObj "(string \<times> jsval) list"
  | JFun nat string

text \<open>Truthiness, as \<open>if (v)\<close>, \<open>!v\<close>, \<open>a && b\<close>, \<open>a || b\<close> and \<open>_.compact\<close> read it.\<close>

fun truthy :: "jsval \<Rightarrow> bool" where
  "truthy JUndefined = False"
| "truthy JNull = False"
| "truthy (JBool b) = b"
| "truthy (JNum n) = (n \<noteq> 0)"
| "truthy (JStr s) = (s \<noteq> [])"
| "truthy (JArr xs) = True"
| "truthy (JObj kvs) = True"
| "truthy (JFun i src) = True"

definition js_or :: "jsval \<Rightarrow> jsval \<Rightarrow> jsval" where
  "js_or a b = (if truthy a then a else b)"

fun isFunction :: "jsval \<Rightarrow> bool" where
  "isFunction (JFun i src) = True"
| "isFunction v = False"

fun isString :: "jsval \<Rightarrow> bool" where
  "isString (JStr s) = True"
| "isString v = False"

fun isNumber :: "jsval \<Rightarrow> bool" where
  "isNumber (JNum n) = True"
| "isNumber v = False"

subsection \<open>ToString and Array.prototype.join\<close>

definition digit :: "nat \<Rightarrow> char" where
  "digit d = ''0123456789'' ! d"

function show_nat :: "nat \<Rightarrow> string" where
  "show_nat n = (if n < 10 then [digit n] else show_nat (n div 10) @ [digit (n mod 10)])"
  by pat_completeness auto
termination
  by (relation "measure id") auto

declare show_nat.simps [simp del]

definition show_int :: "int \<Rightarrow> string" where
  "show_int i = (if i < 0 then CHR ''-'' # show_nat (nat (- i)) else show_nat (nat i))"

fun join_strings :: "string \<Rightarrow> string list \<Rightarrow> string" where
  "join_strings sep [] = []"
| "join_strings sep [x] = x"
| "join_strings sep (x # y # zs) = x @ sep @ join_strings sep (y # zs)"

text \<open>
  \<open>String(v)\<close>. An array is its elements joined by a comma, with \<open>null\<close> and
  \<open>undefined\<close> elements contributing the empty string. \<open>None\<close> on an object with a
  property \<open>toString\<close> of its own, whose conversion is not described.
\<close>

fun to_string :: "jsval \<Rightarrow> string option" where
  "to_string JUndefined = Some ''undefined''"
| "to_string JNull = Some ''null''"
| "to_string (JBool b) = Some (if b then ''true'' else ''false'')"
| "to_string (JNum n) = Some (show_int (sint n))"
| "to_string (JStr s) = Some s"
| "to_string (JArr xs) =
     map_option (join_strings '','')
       (those (map (\<lambda>x. if x = JUndefined \<or> x = JNull then Some [] else to_string x) xs))"
| "to_string (JObj kvs) =
     (if map_of kvs ''toString'' = None then Some ''[object Object]'' else None)"
| "to_string (JFun i src) = Some src"

definition element_string :: "jsval \<Rightarrow> string option" where
  "element_string x = (if x = JUndefined \<or> x = JNull then Some [] else to_string x)"

text \<open>\<open>xs.join(sep)\<close>.\<close>

definition js_join :: "string \<Rightarrow> jsval list \<Rightarrow> string option" where
  "js_join sep xs = map_option (join_strings sep) (those (map element_string xs))"

subsection \<open>Decimal digits\<close>

definition is_digit :: "char \<Rightarrow> bool" where
  "is_digit c = (48 \<le> (of_char c :: nat) \<and> (of_char c :: nat) \<le> 57)"

definition digit_value :: "char \<Rightarrow> nat" where
  "digit_value c = of_char c - 48"

definition digits_value :: "string \<Rightarrow> nat" where
  "digits_value ds = foldl (\<lambda>n c. 10 * n + digit_value c) 0 ds"

subsection \<open>Properties of an object\<close>

text \<open>
  An array index is the canonical text of an integer from 0 to \<open>2^32 - 2\<close>. Writing
  \<open>o[k] = v\<close> on a plain object keeps the place of a property that is there, puts a new
  array index among the array indices, and a new name at the end.
\<close>

definition array_index :: "string \<Rightarrow> bool" where
  "array_index k =
     (k \<noteq> [] \<and> list_all is_digit k \<and> (if hd k = CHR ''0'' then length k = 1 else True)
      \<and> int (digits_value k) < 4294967295)"

fun assoc_set :: "('k \<times> 'v) list \<Rightarrow> 'k \<Rightarrow> 'v \<Rightarrow> ('k \<times> 'v) list" where
  "assoc_set [] k v = [(k, v)]"
| "assoc_set (p # ps) k v = (if fst p = k then (k, v) # ps else p # assoc_set ps k v)"

fun index_insert :: "(string \<times> 'v) list \<Rightarrow> string \<Rightarrow> 'v \<Rightarrow> (string \<times> 'v) list" where
  "index_insert [] k v = [(k, v)]"
| "index_insert (p # ps) k v =
     (if array_index (fst p) \<and> digits_value (fst p) < digits_value k
      then p # index_insert ps k v
      else (k, v) # p # ps)"

definition js_put :: "(string \<times> 'v) list \<Rightarrow> string \<Rightarrow> 'v \<Rightarrow> (string \<times> 'v) list" where
  "js_put kvs k v =
     (if map_of kvs k \<noteq> None then assoc_set kvs k v
      else if array_index k then index_insert kvs k v
      else kvs @ [(k, v)])"

subsection \<open>Array and lodash helpers used by the wrapper\<close>

text \<open>\<open>[].concat(...args)\<close>: an array argument is spread one level, anything else is appended.\<close>

fun spreadable :: "jsval \<Rightarrow> jsval list" where
  "spreadable (JArr xs) = xs"
| "spreadable v = [v]"

definition concat_args :: "jsval list \<Rightarrow> jsval list" where
  "concat_args args = concat (map spreadable args)"

text \<open>\<open>_.compact\<close>: drops the falsy elements.\<close>

definition compact :: "jsval list \<Rightarrow> jsval list" where
  "compact xs = filter truthy xs"

text \<open>Arrays and plain objects: the values that hold other values.\<close>

fun is_container :: "jsval \<Rightarrow> bool" where
  "is_container (JObj kvs) = True"
| "is_container (JArr xs) = True"
| "is_container v = False"

text \<open>
  \<open>_.uniq\<close>: keeps the first occurrence of each element, in order. Two arrays or two
  objects are the same element only when they are one object; a list of values does not
  say that of two equal ones, and \<open>uniq\<close> is \<open>None\<close> on such a list.
\<close>

fun baseUniq :: "'a list \<Rightarrow> 'a list \<Rightarrow> 'a list" where
  "baseUniq result [] = result"
| "baseUniq result (x # xs) =
     (if List.member result x then baseUniq result xs else baseUniq (result @ [x]) xs)"

definition uniq :: "jsval list \<Rightarrow> jsval list option" where
  "uniq xs =
     (if distinct (filter is_container xs) then Some (baseUniq [] xs) else None)"

text \<open>\<open>_.last\<close> and \<open>_.initial\<close> on an array.\<close>

definition js_last :: "jsval list \<Rightarrow> jsval" where
  "js_last xs = (if xs = [] then JUndefined else last xs)"

definition initial :: "jsval list \<Rightarrow> jsval list" where
  "initial xs = butlast xs"

text \<open>
  The elements \<open>_.forEach(collection, f)\<close> visits: the elements of an array, the
  characters of a string, the property values of an object that has no \<open>length\<close>.
  \<open>None\<close> on an object with a \<open>length\<close> and on a function.
\<close>

fun forEach_elements :: "jsval \<Rightarrow> jsval list option" where
  "forEach_elements (JArr xs) = Some xs"
| "forEach_elements (JStr s) = Some (map (\<lambda>c. JStr [c]) s)"
| "forEach_elements (JObj kvs) =
     (if map_of kvs ''length'' = None then Some (map snd kvs) else None)"
| "forEach_elements (JFun i src) = None"
| "forEach_elements v = Some []"

section \<open>String.prototype.split\<close>

text \<open>
  \<open>s.split(sep)\<close> for a string separator: the occurrences of the separator are found
  from the left and do not overlap; the empty separator splits between the characters.
\<close>

function split_go :: "string \<Rightarrow> string \<Rightarrow> string \<Rightarrow> string list" where
  "split_go sep acc [] = [rev acc]"
| "split_go sep acc (c # cs) =
     (if sep \<noteq> [] \<and> take (length sep) (c # cs) = sep
      then rev acc # split_go sep [] (drop (length sep) (c # cs))
      else split_go sep (c # acc) cs)"
  by pat_completeness auto
termination
  by (relation "measure (\<lambda>(sep, acc, s). length s)") auto

definition js_split :: "string \<Rightarrow> string \<Rightarrow> string list" where
  "js_split sep s = (if sep = [] then map (\<lambda>c. [c]) s else split_go sep [] s)"

section \<open>Errors\<close>

text \<open>
  The two errors the wrapper constructs itself (in \<open>createClient\<close> and in \<open>count\<close>),
  the error objects the store client hands to a callback, and the \<open>TypeError\<close> of
  calling a value that is not a function.
\<close>

datatype err =
    InvalidConnectionString
  | MissingCountPatterns int
  | ClientError string
  | TypeError

section \<open>Module state of redis.js\<close>

text \<open>
  \<open>options.redis\<close> is an object of connection settings or a connection string; a
  connection string is represented by what \<open>url.parse(s, true)\<close> makes of it.
\<close>

record connection =
  port :: jsval
  host :: jsval
  socket :: jsval
  db :: jsval
  auth :: jsval
  options :: jsval

record parsed_url =
  protocol :: jsval
  url_port :: jsval
  hostname :: jsval
  pathname :: jsval
  query :: jsval
  url_auth :: jsval

datatype redis_setting = RedisObject connection | RedisUrl parsed_url

record settings =
  prefix :: string
  separator :: string
  redis :: redis_setting

text \<open>The constant \<open>defaults\<close> of the module.\<close>

definition default_settings :: settings where
  "default_settings =
     \<lparr> prefix = ''r'', separator = '':'',
       redis = RedisObject \<lparr> port = JNum 6379, host = JStr ''127.0.0.1'', socket = JUndefined,
                              db = JUndefined, auth = JUndefined, options = JUndefined \<rparr> \<rparr>"

text \<open>
  What the module does to the client library's objects: each client object is named by
  the number it got when \<open>redis.createClient\<close> made it.
\<close>

datatype event =
    Created nat jsval jsval jsval
  | Auth nat jsval
  | Select nat jsval
  | SetId nat nat
  | Unsubscribe nat
  | RemoveAllListeners nat
  | Quit nat

text \<open>
  The exported mutable state (\<open>_client\<close>, \<open>publisher\<close>, \<open>subscriber\<close>, \<open>_clients\<close>,
  \<open>defaults\<close>) and the environment the module reads: the identity of the next object the
  client library creates, \<open>Date.now()\<close>, the values \<open>uuid.v1()\<close> returns, and the calls
  made so far on client objects.
\<close>

record state =
  p_client :: "nat option"
  publisher :: "nat option"
  subscriber :: "nat option"
  p_clients :: "nat list"
  defaults :: settings
  fresh :: nat
  now :: nat
  uuid_v1 :: "nat \<Rightarrow> string"
  uuid_count :: nat
  trace :: "event list"

text \<open>The state when the module has just been loaded.\<close>

definition loaded :: "nat \<Rightarrow> (nat \<Rightarrow> string) \<Rightarrow> state" where
  "loaded t u =
     \<lparr> p_client = None, publisher = None, subscriber = None, p_clients = [],
       defaults = default_settings, fresh = 0, now = t, uuid_v1 = u, uuid_count = 0,
       trace = [] \<rparr>"

subsection \<open>createClient\<close>

text \<open>\<open>s.substr(1)\<close> on the pathname.\<close>

fun substr1 :: "jsval \<Rightarrow> jsval" where
  "substr1 (JStr s) = JStr (drop 1 s)"
| "substr1 v = v"

text \<open>
  \<open>auth.replace(/.*?:/, '')\<close>: the leftmost match starts after the last line terminator
  before the first colon and ends at that colon; without a colon nothing is replaced.
\<close>

definition line_terminator :: "char \<Rightarrow> bool" where
  "line_terminator c = (c = CHR 0x0A \<or> c = CHR 0x0D)"

definition strip_user :: "string \<Rightarrow> string" where
  "strip_user s =
     (let pre = takeWhile (\<lambda>c. c \<noteq> CHR '':'') s;
          post = dropWhile (\<lambda>c. c \<noteq> CHR '':'') s
      in if post = [] then s
         else rev (dropWhile (\<lambda>c. \<not> line_terminator c) (rev pre)) @ drop 1 post)"

fun lookup_property :: "jsval \<Rightarrow> string \<Rightarrow> jsval" where
  "lookup_property (JObj kvs) k = (case map_of kvs k of None \<Rightarrow> JUndefined | Some v \<Rightarrow> v)"
| "lookup_property v k = JUndefined"

text \<open>The settings a connection string stands for (lines 69 to 90 of redis.js).\<close>

definition connection_of_url :: "parsed_url \<Rightarrow> err + connection" where
  "connection_of_url u =
     (if protocol u \<noteq> JStr ''redis:'' then Inl InvalidConnectionString
      else Inr \<lparr> port = js_or (url_port u) (JNum 6379),
                 host = hostname u,
                 socket = JUndefined,
                 db = js_or (js_or (if truthy (pathname u) then substr1 (pathname u) else JNull)
                                   (lookup_property (query u) ''db''))
                            (JNum 0),
                 auth = (if truthy (url_auth u)
                         then (case url_auth u of JStr a \<Rightarrow> JStr (strip_user a) | v \<Rightarrow> v)
                         else JUndefined),
                 options = query u \<rparr>)"

text \<open>
  \<open>createClient(options)\<close>. The argument is the merged options
  \<open>_.merge({}, exports.defaults, options)\<close>; \<open>None\<close> is the call without an argument,
  whose merge is a copy of \<open>exports.defaults\<close>. It returns the new client object, or
  throws on a connection string that is not a \<open>redis:\<close> one.
\<close>

definition createClient :: "settings option \<Rightarrow> state \<Rightarrow> err + (nat \<times> state)" where
  "createClient merged st =
     (let opts = (case merged of None \<Rightarrow> defaults st | Some m \<Rightarrow> m);
          conn = (case redis opts of RedisUrl u \<Rightarrow> connection_of_url u | RedisObject c \<Rightarrow> Inr c)
      in case conn of
           Inl e \<Rightarrow> Inl e
         | Inr r \<Rightarrow>
             (let sock = socket r;
                  prt = (if \<not> truthy sock then js_or (port r) (JNum 6379) else JNull);
                  hst = (if \<not> truthy sock then js_or (host r) (JStr ''127.0.0.1'') else JNull);
                  c = fresh st;
                  ev1 = [Created c (js_or sock prt) hst (options r)];
                  ev2 = (if truthy (auth r) then [Auth c (auth r)] else []);
                  ev3 = (if truthy (db r) then [Select c (db r)] else [])
              in Inr (c, st \<lparr> p_clients := p_clients st @ [c],
                               fresh := Suc (fresh st),
                               trace := trace st @ ev1 @ ev2 @ ev3 \<rparr>)))"

subsection \<open>init, client, pubsub, multi\<close>

text \<open>\<open>pubsub()\<close>: creates the publisher and the subscriber when they are not there.\<close>

definition pubsub :: "state \<Rightarrow> err + ((nat \<times> nat) \<times> state)" where
  "pubsub st =
     (case (case publisher st of
              Some p \<Rightarrow> Inr (p, st)
            | None \<Rightarrow>
                (case createClient None st of
                   Inl e \<Rightarrow> Inl e
                 | Inr (p, st1) \<Rightarrow>
                     Inr (p, st1 \<lparr> publisher := Some p, trace := trace st1 @ [SetId p (now st1)] \<rparr>))) of
        Inl e \<Rightarrow> Inl e
      | Inr (p, st2) \<Rightarrow>
          (case subscriber st2 of
             Some s \<Rightarrow> Inr ((p, s), st2)
           | None \<Rightarrow>
               (case createClient None st2 of
                  Inl e \<Rightarrow> Inl e
                | Inr (s, st3) \<Rightarrow>
                    Inr ((p, s),
                         st3 \<lparr> subscriber := Some s, trace := trace st3 @ [SetId s (now st3)] \<rparr>))))"

text \<open>\<open>init()\<close>, also exported as \<open>client()\<close>.\<close>

definition init :: "state \<Rightarrow> err + (nat \<times> state)" where
  "init st =
     (case (case p_client st of
              Some c \<Rightarrow> Inr (c, st)
            | None \<Rightarrow>
                (case createClient None st of
                   Inl e \<Rightarrow> Inl e
                 | Inr (c, st1) \<Rightarrow>
                     Inr (c, st1 \<lparr> p_client := Some c, trace := trace st1 @ [SetId c (now st1)] \<rparr>))) of
        Inl e \<Rightarrow> Inl e
      | Inr (c, st2) \<Rightarrow>
          (case pubsub st2 of
             Inl e \<Rightarrow> Inl e
           | Inr (ps, st3) \<Rightarrow> Inr (c, st3)))"

definition client :: "state \<Rightarrow> err + (nat \<times> state)" where
  "client st = init st"

text \<open>\<open>multi()\<close>: the multi command object of the cached client.\<close>

definition multi :: "state \<Rightarrow> err + (nat \<times> state)" where
  "multi st = init st"

subsection \<open>reset, also exported as quit\<close>

definition reset :: "state \<Rightarrow> state" where
  "reset st =
     (let ev1 = (case subscriber st of
                   Some s \<Rightarrow> [Unsubscribe s, RemoveAllListeners s]
                 | None \<Rightarrow> []);
          ev2 = map Quit (p_clients st)
      in st \<lparr> p_client := None, publisher := None, subscriber := None,
              defaults := default_settings, p_clients := [],
              trace := trace st @ ev1 @ ev2 \<rparr>)"

definition quit :: "state \<Rightarrow> state" where
  "quit st = reset st"

subsection \<open>key\<close>

text \<open>
  \<open>key(...args)\<close>. When the flattened arguments are empty, one \<open>uuid.v1()\<close> is drawn
  from the environment. \<open>None\<close> where the text of a segment is not described.
\<close>

definition key :: "jsval list \<Rightarrow> state \<Rightarrow> (string \<times> state) option" where
  "key args st =
     (let k0 = concat_args args;
          k1 = (if length k0 = 0 then k0 @ [JStr (uuid_v1 st (uuid_count st))] else k0);
          st1 = (if length k0 = 0 then st \<lparr> uuid_count := Suc (uuid_count st) \<rparr> else st);
          k2 = [JStr (prefix (defaults st))] @ k1
      in map_option (\<lambda>k. (k, st1)) (js_join (separator (defaults st)) k2))"

section \<open>The store client\<close>

text \<open>
  The client library and the server behind it are outside the repository. A request is
  one command with its arguments, or the commands queued on a multi object and sent by
  \<open>exec\<close>. The client answers a request with what it passes to the request's callback (an
  error message or none, and a reply) and the server's next state; \<open>None\<close> stands for a
  behaviour that is not described. The wrapper is written against any such client.
\<close>

type_synonym command = "string \<times> jsval list"

datatype request = Single command | Transaction "command list"

type_synonym reply = "string option \<times> jsval"

type_synonym 'c store_client = "request \<Rightarrow> 'c \<Rightarrow> (reply \<times> 'c) option"

text \<open>
  What one call of the wrapper did: the calls it made of functions it was given (the
  function's identity and the arguments), the requests it sent, an exception it threw,
  the call whose value it returned (when it returned the value of one), the module
  state afterwards, and the server afterwards.
\<close>

datatype carg = AErr err | AVal jsval

datatype call = Call nat "carg list"

record 'c run =
  calls :: "call list"
  sent :: "request list"
  thrown :: "err option"
  returns :: "call option"
  after :: state
  server :: 'c

text \<open>The function \<open>noop\<close> of redis.js, and the one of commands.js.\<close>

definition noop :: jsval where
  "noop = JFun 0 ''function () {}''"

definition commands_noop :: jsval where
  "commands_noop = JFun 1 ''function () {}''"

text \<open>\<open>f(args)\<close>: the call when \<open>f\<close> is a function, a \<open>TypeError\<close> otherwise.\<close>

definition invoke :: "jsval \<Rightarrow> carg list \<Rightarrow> call list \<times> err option" where
  "invoke f args = (case f of JFun i src \<Rightarrow> ([Call i args], None) | _ \<Rightarrow> ([], Some TypeError))"

text \<open>The error argument a callback of the client receives: the error object, or \<open>null\<close>.\<close>

definition reply_error :: "string option \<Rightarrow> carg" where
  "reply_error e = (case e of None \<Rightarrow> AVal JNull | Some m \<Rightarrow> AErr (ClientError m))"

text \<open>A run that ends with an exception before anything is sent.\<close>

definition throw_run :: "err \<Rightarrow> state \<Rightarrow> 'c \<Rightarrow> 'c run" where
  "throw_run e st srv =
     \<lparr> calls = [], sent = [], thrown = Some e, returns = None, after = st, server = srv \<rparr>"

text \<open>A run that calls \<open>f\<close> with the arguments after the requests were sent.\<close>

definition called :: "jsval \<Rightarrow> carg list \<Rightarrow> request list \<Rightarrow> state \<Rightarrow> 'c \<Rightarrow> 'c run" where
  "called f args reqs st srv =
     \<lparr> calls = fst (invoke f args), sent = reqs, thrown = snd (invoke f args), returns = None,
       after = st, server = srv \<rparr>"

subsection \<open>info\<close>

text \<open>
  \<open>info(done)\<close>. The reply of the \<open>info\<close> request stands for the \<open>server_info\<close> the
  client object holds when its callback runs.
\<close>

definition info :: "'c store_client \<Rightarrow> jsval \<Rightarrow> state \<Rightarrow> 'c \<Rightarrow> 'c run option" where
  "info cl done st srv =
     (case init st of
        Inl e \<Rightarrow> Some (throw_run e st srv)
      | Inr (c0, st1) \<Rightarrow>
          (case client st1 of
             Inl e \<Rightarrow> Some (throw_run e st1 srv)
           | Inr (c, st2) \<Rightarrow>
               (case cl (Single (''info'', [])) srv of
                  None \<Rightarrow> None
                | Some ((error, server_info), srv1) \<Rightarrow>
                    Some (called done [reply_error error, AVal server_info]
                            [Single (''info'', [])] st2 srv1))))"

subsection \<open>count, also exported as size\<close>

text \<open>The Lua script that counts the keys of one pattern (lines 276 and 277).\<close>

definition count_script :: "jsval \<Rightarrow> string option" where
  \<open>count_script pattern =
     js_join [] [JStr ''return #redis.pcall("keys", "'', pattern, JStr ''")'']\<close>

text \<open>
  The normalisation of the reply of \<open>exec\<close> (lines 287 to 289): a truthy reply with more
  than one element is kept, any other truthy reply gives way to its first element.
  \<open>None\<close> on an object and on a function.
\<close>

fun normalize_count :: "jsval \<Rightarrow> jsval option" where
  "normalize_count (JArr xs) =
     Some (if length xs > 1 then JArr xs else (case xs of [] \<Rightarrow> JUndefined | x # _ \<Rightarrow> x))"
| "normalize_count (JStr s) =
     Some (if s = [] then JStr s else if length s > 1 then JStr s else JStr [hd s])"
| "normalize_count (JNum n) = Some (if n \<noteq> 0 then JUndefined else JNum n)"
| "normalize_count (JBool b) = Some (if b then JUndefined else JBool b)"
| "normalize_count JUndefined = Some JUndefined"
| "normalize_count JNull = Some JNull"
| "normalize_count (JObj kvs) = None"
| "normalize_count (JFun i src) = None"

text \<open>The patterns that are left when a callback at the end is dropped (lines 258 to 263).\<close>

definition count_patterns :: "jsval list \<Rightarrow> jsval list" where
  "count_patterns patterns =
     (if isFunction (js_last patterns) then initial patterns else patterns)"

text \<open>The commands queued on the multi object, one \<open>eval\<close> for each pattern.\<close>

definition count_request :: "jsval list \<Rightarrow> request option" where
  "count_request patterns =
     map_option (\<lambda>scripts. Transaction (map (\<lambda>script. (''eval'', [JStr script, JNum 0])) scripts))
       (those (map count_script patterns))"

text \<open>\<open>count(...patterns)\<close>: \<open>done\<close> is the last of the patterns.\<close>

definition count :: "'c store_client \<Rightarrow> jsval list \<Rightarrow> state \<Rightarrow> 'c \<Rightarrow> 'c run option" where
  "count cl args st srv =
     (case uniq (compact (concat_args args)) of
        None \<Rightarrow> None
      | Some patterns \<Rightarrow>
          (if length (count_patterns patterns) > 0
           then
             (case multi st of
                Inl e \<Rightarrow> Some (throw_run e st srv)
              | Inr (c, st1) \<Rightarrow>
                  (case count_request (count_patterns patterns) of
                     None \<Rightarrow> None
                   | Some req \<Rightarrow>
                       (case cl req srv of
                          None \<Rightarrow> None
                        | Some ((error, cnt), srv1) \<Rightarrow>
                            (case normalize_count cnt of
                               None \<Rightarrow> None
                             | Some n \<Rightarrow>
                                 Some (called (js_last patterns) [reply_error error, AVal n]
                                         [req] st1 srv1)))))
           else
             Some (called (js_last patterns) [AErr (MissingCountPatterns 400)] [] st srv)))"

definition size_command :: "'c store_client \<Rightarrow> jsval list \<Rightarrow> state \<Rightarrow> 'c \<Rightarrow> 'c run option" where
  "size_command cl args st srv = count cl args st srv"

subsection \<open>clear\<close>

text \<open>The pattern of the keys to remove (lines 369 to 373).\<close>

definition clear_pattern :: "settings \<Rightarrow> jsval \<Rightarrow> string option" where
  "clear_pattern d pattern =
     (let pat = compact [JStr (prefix d), pattern]
      in if length pat > 1
         then (case js_join (separator d) pat of
                 None \<Rightarrow> None
               | Some joined \<Rightarrow> js_join [] ([JStr joined] @ [JStr ''*'']))
         else js_join [] ([JArr pat] @ [JStr ''*'']))"

text \<open>The pattern and the callback after the arguments are normalised (lines 358 to 366).\<close>

definition clear_given :: "jsval \<Rightarrow> jsval" where
  "clear_given pattern = (if truthy pattern \<and> isFunction pattern then JUndefined else pattern)"

definition clear_callback :: "jsval \<Rightarrow> jsval \<Rightarrow> jsval" where
  "clear_callback pattern done =
     (let d = (if truthy pattern \<and> isFunction pattern then pattern else done)
      in if \<not> truthy d then noop else d)"

definition del_request :: "jsval list \<Rightarrow> request" where
  "del_request ks = Transaction (map (\<lambda>k. (''del'', [k])) ks)"

text \<open>
  \<open>clear(pattern, done)\<close>. \<open>exec(done)\<close> hands \<open>done\<close> to the client library, which calls
  it with the error and the replies; what the library does with a \<open>done\<close> that is not a
  function is not described.
\<close>

definition clear :: "'c store_client \<Rightarrow> jsval \<Rightarrow> jsval \<Rightarrow> state \<Rightarrow> 'c \<Rightarrow> 'c run option" where
  "clear cl pattern done st srv =
     (case clear_pattern (defaults st) (clear_given pattern) of
        None \<Rightarrow> None
      | Some pat \<Rightarrow>
          (case init st of
             Inl e \<Rightarrow> Some (throw_run e st srv)
           | Inr (c0, st1) \<Rightarrow>
               (case client st1 of
                  Inl e \<Rightarrow> Some (throw_run e st1 srv)
                | Inr (c, st2) \<Rightarrow>
                    (case cl (Single (''keys'', [JStr pat])) srv of
                       None \<Rightarrow> None
                     | Some ((error, keys), srv1) \<Rightarrow>
                         (case error of
                            Some m \<Rightarrow>
                              Some (called (clear_callback pattern done) [AErr (ClientError m)]
                                      [Single (''keys'', [JStr pat])] st2 srv1)
                          | None \<Rightarrow>
                              (case multi st2 of
                                 Inl e \<Rightarrow>
                                   Some ((throw_run e st2 srv1)
                                           \<lparr> sent := [Single (''keys'', [JStr pat])] \<rparr>)
                               | Inr (c1, st3) \<Rightarrow>
                                   (case forEach_elements keys of
                                      None \<Rightarrow> None
                                    | Some ks \<Rightarrow>
                                        (case cl (del_request ks) srv1 of
                                           None \<Rightarrow> None
                                         | Some ((error2, replies), srv2) \<Rightarrow>
                                             (if isFunction (clear_callback pattern done)
                                              then Some (called (clear_callback pattern done)
                                                           [reply_error error2, AVal replies]
                                                           [Single (''keys'', [JStr pat]), del_request ks]
                                                           st3 srv2)
                                              else None)))))))))"

section \<open>JSON.stringify and JSON.parse\<close>

text \<open>
  A model of the two built-in functions on the values of \<open>jsval\<close>. Where the model does
  not describe what the built-in does (a method \<open>toJSON\<close>, a fraction, an exponent, an
  escape above the ASCII range, a number outside the range of \<open>JNum\<close>) the result is
  \<open>None\<close> or \<open>Unsupported\<close>.
\<close>

definition hex_digit :: "nat \<Rightarrow> char" where
  "hex_digit d = ''0123456789abcdef'' ! d"

text \<open>\<open>QuoteJSONString\<close>: the escapes \<open>JSON.stringify\<close> writes.\<close>

definition escape_char :: "char \<Rightarrow> string" where
  "escape_char c =
     (if c = CHR 0x22 then [CHR 0x5C, CHR 0x22]
      else if c = CHR 0x5C then [CHR 0x5C, CHR 0x5C]
      else if c = CHR 0x08 then [CHR 0x5C, CHR ''b'']
      else if c = CHR 0x0C then [CHR 0x5C, CHR ''f'']
      else if c = CHR 0x0A then [CHR 0x5C, CHR ''n'']
      else if c = CHR 0x0D then [CHR 0x5C, CHR ''r'']
      else if c = CHR 0x09 then [CHR 0x5C, CHR ''t'']
      else if (of_char c :: nat) < 32
      then [CHR 0x5C, CHR ''u'', CHR ''0'', CHR ''0'',
            hex_digit ((of_char c :: nat) div 16), hex_digit ((of_char c :: nat) mod 16)]
      else [c])"

definition quote :: "string \<Rightarrow> string" where
  "quote s = CHR 0x22 # concat (map escape_char s) @ [CHR 0x22]"

text \<open>
  The text \<open>JSON.stringify\<close> writes for a value none of whose objects has a method
  \<open>toJSON\<close>; \<open>None\<close> is the result \<open>undefined\<close>. In an array a value without a text is
  written \<open>null\<close>, in an object its property is left out.
\<close>

fun serialize :: "jsval \<Rightarrow> string option" where
  "serialize JUndefined = None"
| "serialize JNull = Some ''null''"
| "serialize (JBool b) = Some (if b then ''true'' else ''false'')"
| "serialize (JNum n) = Some (show_int (sint n))"
| "serialize (JStr s) = Some (quote s)"
| "serialize (JArr xs) =
     Some (''['' @ join_strings '',''
             (map (\<lambda>x. case serialize x of None \<Rightarrow> ''null'' | Some t \<Rightarrow> t) xs) @ '']'')"
| "serialize (JObj kvs) =
     Some (''{'' @ join_strings '',''
             (concat (map (\<lambda>(k, x). case serialize x of None \<Rightarrow> []
                                       | Some t \<Rightarrow> [quote k @ '':'' @ t]) kvs)) @ ''}'')"
| "serialize (JFun i src) = None"

text \<open>Whether an object in a value has a method \<open>toJSON\<close>, which \<open>JSON.stringify\<close> calls.\<close>

fun has_toJSON :: "jsval \<Rightarrow> bool" where
  "has_toJSON (JObj kvs) =
     (isFunction (case map_of kvs ''toJSON'' of None \<Rightarrow> JUndefined | Some f \<Rightarrow> f)
      \<or> list_ex (\<lambda>kv. has_toJSON (snd kv)) kvs)"
| "has_toJSON (JArr xs) = list_ex has_toJSON xs"
| "has_toJSON v = False"

text \<open>\<open>JSON.stringify(v)\<close>: a string or \<open>undefined\<close>.\<close>

definition JSON_stringify :: "jsval \<Rightarrow> jsval option" where
  "JSON_stringify v =
     (if has_toJSON v then None
      else Some (case serialize v of None \<Rightarrow> JUndefined | Some t \<Rightarrow> JStr t))"

datatype 'a presult = Ok 'a string | SyntaxError | Unsupported

definition is_ws :: "char \<Rightarrow> bool" where
  "is_ws c = (c = CHR '' '' \<or> c = CHR 0x09 \<or> c = CHR 0x0A \<or> c = CHR 0x0D)"

definition skip_ws :: "string \<Rightarrow> string" where
  "skip_ws s = dropWhile is_ws s"

definition hex_value :: "char \<Rightarrow> nat option" where
  "hex_value c =
     (let n = (of_char c :: nat)
      in if 48 \<le> n \<and> n \<le> 57 then Some (n - 48)
         else if 97 \<le> n \<and> n \<le> 102 then Some (n - 87)
         else if 65 \<le> n \<and> n \<le> 70 then Some (n - 55)
         else None)"

definition unescape :: "char \<Rightarrow> char option" where
  "unescape e =
     (if e = CHR 0x22 then Some (CHR 0x22)
      else if e = CHR 0x5C then Some (CHR 0x5C)
      else if e = CHR ''/'' then Some (CHR ''/'')
      else if e = CHR ''b'' then Some (CHR 0x08)
      else if e = CHR ''f'' then Some (CHR 0x0C)
      else if e = CHR ''n'' then Some (CHR 0x0A)
      else if e = CHR ''r'' then Some (CHR 0x0D)
      else if e = CHR ''t'' then Some (CHR 0x09)
      else None)"

definition cons_result :: "'a \<Rightarrow> ('a list) presult \<Rightarrow> ('a list) presult" where
  "cons_result x r = (case r of Ok xs rest \<Rightarrow> Ok (x # xs) rest | SyntaxError \<Rightarrow> SyntaxError
                      | Unsupported \<Rightarrow> Unsupported)"

text \<open>The characters of a string literal, after its opening quote.\<close>

fun parse_string :: "string \<Rightarrow> string presult" where
  "parse_string [] = SyntaxError"
| "parse_string (c # cs) =
     (if c = CHR 0x22 then Ok [] cs
      else if c = CHR 0x5C then
        (case cs of
           [] \<Rightarrow> SyntaxError
         | e # r \<Rightarrow>
             (if e = CHR ''u'' then
                (case r of
                   a # b # c' # d # r' \<Rightarrow>
                     (case (hex_value a, hex_value b, hex_value c', hex_value d) of
                        (Some h1, Some h2, Some h3, Some h4) \<Rightarrow>
                          (if h1 = 0 \<and> h2 = 0 \<and> h3 < 8
                           then cons_result (char_of (h3 * 16 + h4)) (parse_string r')
                           else Unsupported)
                      | _ \<Rightarrow> SyntaxError)
                 | _ \<Rightarrow> SyntaxError)
              else (case unescape e of
                      Some ch \<Rightarrow> cons_result ch (parse_string r)
                    | None \<Rightarrow> SyntaxError)))
      else if (of_char c :: nat) < 32 then SyntaxError
      else cons_result c (parse_string cs))"

text \<open>The integers a \<open>JNum\<close> holds.\<close>

definition in_range :: "int \<Rightarrow> bool" where
  "in_range i = (- 9007199254740992 \<le> i \<and> i \<le> 9007199254740991)"

text \<open>A number literal: the text starts with a minus sign or a digit.\<close>

definition parse_number :: "string \<Rightarrow> jsval presult" where
  "parse_number s =
     (let neg = (s \<noteq> [] \<and> hd s = CHR ''-'');
          body = (if neg then tl s else s);
          ds = takeWhile is_digit body;
          rest = dropWhile is_digit body
      in if ds = [] then SyntaxError
         else if hd ds = CHR ''0'' \<and> length ds > 1 then SyntaxError
         else if rest \<noteq> [] \<and> (hd rest = CHR ''.'' \<or> hd rest = CHR ''e'' \<or> hd rest = CHR ''E'')
         then Unsupported
         else if neg \<and> digits_value ds = 0 then Unsupported
         else if \<not> in_range (if neg then - int (digits_value ds) else int (digits_value ds))
         then Unsupported
         else Ok (JNum (of_int (if neg then - int (digits_value ds) else int (digits_value ds))))
                rest)"

text \<open>The object of the members read, each written onto the object in turn.\<close>

definition object_result :: "(string \<times> jsval) list presult \<Rightarrow> jsval presult" where
  "object_result r =
     (case r of
        Ok kvs rest \<Rightarrow> Ok (JObj (foldl (\<lambda>obj kv. js_put obj (fst kv) (snd kv)) [] kvs)) rest
      | SyntaxError \<Rightarrow> SyntaxError
      | Unsupported \<Rightarrow> Unsupported)"

definition array_result :: "jsval list presult \<Rightarrow> jsval presult" where
  "array_result r =
     (case r of Ok xs rest \<Rightarrow> Ok (JArr xs) rest | SyntaxError \<Rightarrow> SyntaxError
      | Unsupported \<Rightarrow> Unsupported)"

text \<open>
  The recursive descent over a value, the elements of an array after its bracket, and
  the members of an object after its brace. The first argument bounds the number of
  nested calls; where it runs out the result is \<open>Unsupported\<close>.
\<close>

fun parse_value :: "nat \<Rightarrow> string \<Rightarrow> jsval presult"
  and parse_elements :: "nat \<Rightarrow> string \<Rightarrow> jsval list presult"
  and parse_members :: "nat \<Rightarrow> string \<Rightarrow> (string \<times> jsval) list presult" where
  "parse_value 0 s = Unsupported"
| "parse_value (Suc n) s =
     (case skip_ws s of
        [] \<Rightarrow> SyntaxError
      | c # cs \<Rightarrow>
          (if c = CHR 0x22 then
             (case parse_string cs of Ok str rest \<Rightarrow> Ok (JStr str) rest
              | SyntaxError \<Rightarrow> SyntaxError | Unsupported \<Rightarrow> Unsupported)
           else if c = CHR ''['' then
             (case skip_ws cs of
                [] \<Rightarrow> SyntaxError
              | d # ds \<Rightarrow> (if d = CHR '']'' then Ok (JArr []) ds
                           else array_result (parse_elements n cs)))
           else if c = CHR ''{'' then
             (case skip_ws cs of
                [] \<Rightarrow> SyntaxError
              | d # ds \<Rightarrow> (if d = CHR ''}'' then Ok (JObj []) ds
                           else object_result (parse_members n cs)))
           else if take 4 (c # cs) = ''true'' then Ok (JBool True) (drop 4 (c # cs))
           else if take 5 (c # cs) = ''false'' then Ok (JBool False) (drop 5 (c # cs))
           else if take 4 (c # cs) = ''null'' then Ok JNull (drop 4 (c # cs))
           else if c = CHR ''-'' \<or> is_digit c then parse_number (c # cs)
           else SyntaxError))"
| "parse_elements 0 s = Unsupported"
| "parse_elements (Suc n) s =
     (case parse_value n s of
        Ok v rest \<Rightarrow>
          (case skip_ws rest of
             [] \<Rightarrow> SyntaxError
           | d # ds \<Rightarrow> (if d = CHR '','' then cons_result v (parse_elements n ds)
                        else if d = CHR '']'' then Ok [v] ds
                        else SyntaxError))
      | SyntaxError \<Rightarrow> SyntaxError
      | Unsupported \<Rightarrow> Unsupported)"
| "parse_members 0 s = Unsupported"
| "parse_members (Suc n) s =
     (case skip_ws s of
        [] \<Rightarrow> SyntaxError
      | q # cs \<Rightarrow>
          (if q \<noteq> CHR 0x22 then SyntaxError
           else (case parse_string cs of
                   Ok k rest \<Rightarrow>
                     (case skip_ws rest of
                        [] \<Rightarrow> SyntaxError
                      | d # ds \<Rightarrow>
                          (if d \<noteq> CHR '':'' then SyntaxError
                           else (case parse_value n ds of
                                   Ok v rest2 \<Rightarrow>
                                     (case skip_ws rest2 of
                                        [] \<Rightarrow> SyntaxError
                                      | e # es \<Rightarrow>
                                          (if e = CHR '','' then cons_result (k, v) (parse_members n es)
                                           else if e = CHR ''}'' then Ok [(k, v)] es
                                           else SyntaxError))
                                 | SyntaxError \<Rightarrow> SyntaxError
                                 | Unsupported \<Rightarrow> Unsupported)))
                 | SyntaxError \<Rightarrow> SyntaxError
                 | Unsupported \<Rightarrow> Unsupported)))"

text \<open>\<open>JSON.parse(text)\<close>: one value, with nothing but white space after it.\<close>

definition JSON_parse :: "string \<Rightarrow> jsval presult" where
  "JSON_parse s =
     (case parse_value (2 * length s + 2) s of
        Ok v rest \<Rightarrow> (if skip_ws rest = [] then Ok v [] else SyntaxError)
      | SyntaxError \<Rightarrow> SyntaxError
      | Unsupported \<Rightarrow> Unsupported)"

section \<open>The functions of commands.js\<close>

subsection \<open>stringify and parse\<close>

text \<open>
  \<open>_.clone(value)\<close>: a copy with the same properties; of a function, an empty object.
\<close>

definition clone :: "jsval \<Rightarrow> jsval" where
  "clone v = (if isFunction v then JObj [] else v)"

text \<open>
  \<open>stringify(value)\<close>: a string is kept, anything else is given to \<open>JSON.stringify\<close>
  (which does not throw on the values of \<open>jsval\<close>).
\<close>

definition stringify :: "jsval \<Rightarrow> jsval option" where
  "stringify v = (if \<not> isString v then JSON_stringify v else Some (clone v))"

text \<open>
  \<open>parse(value)\<close>: \<open>JSON.parse\<close> reads the string of the copy of its argument; on a
  syntax error the copy is returned. \<open>None\<close> where the string or the result of
  \<open>JSON.parse\<close> is not described.
\<close>

definition parse :: "jsval \<Rightarrow> jsval option" where
  "parse v =
     (case to_string (clone v) of
        None \<Rightarrow> None
      | Some t \<Rightarrow>
          (case JSON_parse t of
             Ok w rest \<Rightarrow> Some w
           | SyntaxError \<Rightarrow> Some (clone v)
           | Unsupported \<Rightarrow> None))"

subsection \<open>flat and unflatten (the library flat)\<close>

text \<open>
  A model of the two functions of the library \<open>flat\<close> as commands.js calls them (no
  options). Objects and arrays are the containers. The library asks of every value
  whether it is a buffer, looking at the properties \<open>constructor\<close>, \<open>_isBuffer\<close> and
  \<open>readFloatLE\<close>; an object with one of these of its own is not described, nor is a
  write to the name \<open>__proto__\<close>.
\<close>

fun buffer_like :: "jsval \<Rightarrow> bool" where
  "buffer_like (JObj kvs) =
     (map_of kvs ''constructor'' \<noteq> None \<or> map_of kvs ''_isBuffer'' \<noteq> None
      \<or> map_of kvs ''readFloatLE'' \<noteq> None)"
| "buffer_like v = False"

fun plain_data :: "jsval \<Rightarrow> bool" where
  "plain_data (JObj kvs) =
     (\<not> buffer_like (JObj kvs) \<and> list_all (\<lambda>kv. plain_data (snd kv)) kvs)"
| "plain_data (JArr xs) = list_all plain_data xs"
| "plain_data v = True"

definition new_key :: "string \<Rightarrow> string \<Rightarrow> string" where
  "new_key prev k = (if prev \<noteq> [] then prev @ ''.'' @ k else k)"

text \<open>
  \<open>step(object, prev)\<close> of \<open>flatten\<close>: over the properties of an object, over the
  elements of an array from an index on, and what it does with one property.
\<close>

fun flat_props :: "string \<Rightarrow> (string \<times> jsval) list \<Rightarrow> (string \<times> jsval) list \<Rightarrow> (string \<times> jsval) list"
  and flat_items :: "string \<Rightarrow> nat \<Rightarrow> jsval list \<Rightarrow> (string \<times> jsval) list \<Rightarrow> (string \<times> jsval) list"
  and flat_put :: "string \<Rightarrow> string \<Rightarrow> jsval \<Rightarrow> (string \<times> jsval) list \<Rightarrow> (string \<times> jsval) list" where
  "flat_props prev [] out = out"
| "flat_props prev (kv # kvs) out = flat_props prev kvs (flat_put prev (fst kv) (snd kv) out)"
| "flat_items prev i [] out = out"
| "flat_items prev i (x # xs) out = flat_items prev (Suc i) xs (flat_put prev (show_nat i) x out)"
| "flat_put prev k (JObj kvs) out =
     (if kvs \<noteq> [] then flat_props (new_key prev k) kvs out
      else js_put out (new_key prev k) (JObj kvs))"
| "flat_put prev k (JArr xs) out =
     (if xs \<noteq> [] then flat_items (new_key prev k) 0 xs out
      else js_put out (new_key prev k) (JArr xs))"
| "flat_put prev k JUndefined out = js_put out (new_key prev k) JUndefined"
| "flat_put prev k JNull out = js_put out (new_key prev k) JNull"
| "flat_put prev k (JBool b) out = js_put out (new_key prev k) (JBool b)"
| "flat_put prev k (JNum n) out = js_put out (new_key prev k) (JNum n)"
| "flat_put prev k (JStr s) out = js_put out (new_key prev k) (JStr s)"
| "flat_put prev k (JFun i src) out = js_put out (new_key prev k) (JFun i src)"

text \<open>The properties \<open>flatten\<close> writes onto its output for a target.\<close>

fun flat_output :: "jsval \<Rightarrow> (string \<times> jsval) list" where
  "flat_output (JObj kvs) = flat_props [] kvs []"
| "flat_output (JArr xs) = flat_items [] 0 xs []"
| "flat_output (JStr s) = flat_items [] 0 (map (\<lambda>c. JStr [c]) s) []"
| "flat_output v = []"

text \<open>\<open>flat(target)\<close>: \<open>Object.keys\<close> throws on \<open>null\<close> and \<open>undefined\<close>.\<close>

definition flat :: "jsval \<Rightarrow> (err + jsval) option" where
  "flat target =
     (if target = JUndefined \<or> target = JNull then Some (Inl TypeError)
      else if \<not> plain_data target then None
      else if map_of (flat_output target) ''__proto__'' \<noteq> None then None
      else Some (Inr (JObj (flat_output target))))"

text \<open>
  \<open>getkey\<close> of \<open>unflatten\<close>: a segment that \<open>Number\<close> reads as a number becomes that
  number. The segments here are the digit strings of integers below \<open>2^53\<close> (\<open>PIndex\<close>),
  the other numeric literals (\<open>PExotic\<close>: white space only, a sign, an exponent, a radix
  prefix, \<open>Infinity\<close>, digits from \<open>2^53\<close> on, or anything that could be one of these
  around characters outside ASCII) and the names (\<open>PName\<close>).
\<close>

datatype pkey = PName string | PIndex nat | PExotic

definition js_space :: "char \<Rightarrow> bool" where
  "js_space c = ((of_char c :: nat) = 32 \<or> (9 \<le> (of_char c :: nat) \<and> (of_char c :: nat) \<le> 13))"

definition trim :: "string \<Rightarrow> string" where
  "trim s = rev (dropWhile js_space (rev (dropWhile js_space s)))"

definition strip_sign :: "string \<Rightarrow> string" where
  "strip_sign t = (case t of [] \<Rightarrow> [] | c # r \<Rightarrow> (if c = CHR ''+'' \<or> c = CHR ''-'' then r else t))"

definition decimal_literal :: "string \<Rightarrow> bool" where
  "decimal_literal u =
     (u = ''Infinity'' \<or>
      (let ds = takeWhile is_digit u; r = dropWhile is_digit u
       in ds \<noteq> [] \<and>
          (r = [] \<or> ((hd r = CHR ''e'' \<or> hd r = CHR ''E'')
                      \<and> strip_sign (tl r) \<noteq> [] \<and> list_all is_digit (strip_sign (tl r))))))"

definition radix_literal :: "string \<Rightarrow> bool" where
  "radix_literal t =
     (case t of
        z # x # ds \<Rightarrow>
          z = CHR ''0'' \<and> ds \<noteq> [] \<and>
          ((x = CHR ''x'' \<or> x = CHR ''X'') \<and> list_all (\<lambda>c. hex_value c \<noteq> None) ds
           \<or> (x = CHR ''o'' \<or> x = CHR ''O'')
               \<and> list_all (\<lambda>c. 48 \<le> (of_char c :: nat) \<and> (of_char c :: nat) \<le> 55) ds
           \<or> (x = CHR ''b'' \<or> x = CHR ''B'')
               \<and> list_all (\<lambda>c. c = CHR ''0'' \<or> c = CHR ''1'') ds)
      | _ \<Rightarrow> False)"

definition numeric_literal :: "string \<Rightarrow> bool" where
  "numeric_literal s =
     (let t = trim s in t = [] \<or> radix_literal t \<or> decimal_literal (strip_sign t))"

definition getkey :: "string \<Rightarrow> pkey" where
  "getkey seg =
     (if list_ex (\<lambda>c. 128 \<le> (of_char c :: nat)) seg
      then (if numeric_literal (filter (\<lambda>c. (of_char c :: nat) < 128) seg) then PExotic else PName seg)
      else if seg \<noteq> [] \<and> list_all is_digit seg
      then (if int (digits_value seg) < 9007199254740992 then PIndex (digits_value seg) else PExotic)
      else if numeric_literal seg then PExotic
      else PName seg)"

text \<open>
  The names a plain object inherits from \<open>Object.prototype\<close>: the ones that hold a
  function, and \<open>__proto__\<close>.
\<close>

definition prototype_functions :: "string list" where
  "prototype_functions =
     [''constructor'', ''__defineGetter__'', ''__defineSetter__'', ''hasOwnProperty'',
      ''__lookupGetter__'', ''__lookupSetter__'', ''isPrototypeOf'', ''propertyIsEnumerable'',
      ''toString'', ''valueOf'', ''toLocaleString'']"

fun inherited_function :: "jsval \<Rightarrow> pkey \<Rightarrow> bool" where
  "inherited_function (JObj kvs) (PName s) = (map_of kvs s = None \<and> List.member prototype_functions s)"
| "inherited_function r k = False"

text \<open>
  Reading and writing \<open>recipient[key]\<close>. \<open>None\<close> where the result is not a value of
  \<open>jsval\<close> or is not described: a name on an array, an index beyond the end of an array,
  an inherited name, a number that is no digit string.
\<close>

fun prop_get :: "jsval \<Rightarrow> pkey \<Rightarrow> jsval option" where
  "prop_get (JObj kvs) (PName s) =
     (case map_of kvs s of
        Some v \<Rightarrow> Some v
      | None \<Rightarrow> (if s = ''__proto__'' \<or> List.member prototype_functions s then None
                 else Some JUndefined))"
| "prop_get (JObj kvs) (PIndex n) =
     Some (case map_of kvs (show_nat n) of None \<Rightarrow> JUndefined | Some v \<Rightarrow> v)"
| "prop_get (JArr xs) (PIndex n) = Some (if n < length xs then xs ! n else JUndefined)"
| "prop_get r k = None"

fun prop_set :: "jsval \<Rightarrow> pkey \<Rightarrow> jsval \<Rightarrow> jsval option" where
  "prop_set (JObj kvs) (PName s) v =
     (if s = ''__proto__'' then None else Some (JObj (js_put kvs s v)))"
| "prop_set (JObj kvs) (PIndex n) v = Some (JObj (js_put kvs (show_nat n) v))"
| "prop_set (JArr xs) (PIndex n) v =
     (if n < length xs then Some (JArr (xs[n := v]))
      else if n = length xs then Some (JArr (xs @ [v]))
      else None)"
| "prop_set r k v = None"

text \<open>
  The loop of \<open>unflatten\<close> for one key, from a recipient along the segments: it creates
  the missing containers (an array before a number), gives up the key at a value that
  is no container, and sets the last segment to the unflattened value (\<open>None\<close> when that
  is not described).
\<close>

fun assign_path :: "jsval \<Rightarrow> pkey list \<Rightarrow> jsval option \<Rightarrow> jsval option" where
  "assign_path r [] v = None"
| "assign_path r [k1] v = (case v of None \<Rightarrow> None | Some w \<Rightarrow> prop_set r k1 w)"
| "assign_path r (k1 # k2 # ks) v =
     (if inherited_function r k1 then Some r
      else (case prop_get r k1 of
              None \<Rightarrow> None
            | Some cur \<Rightarrow>
                (if is_container cur then
                   (case assign_path cur (k2 # ks) v of None \<Rightarrow> None | Some c \<Rightarrow> prop_set r k1 c)
                 else if cur \<noteq> JUndefined then Some r
                 else (case assign_path (case k2 of PName s \<Rightarrow> JObj [] | _ \<Rightarrow> JArr []) (k2 # ks) v of
                         None \<Rightarrow> None
                       | Some c \<Rightarrow> prop_set r k1 c))))"

text \<open>The keys in turn, each with its unflattened value, onto the result.\<close>

fun assign_all :: "(string \<times> jsval option) list \<Rightarrow> jsval \<Rightarrow> jsval option" where
  "assign_all [] r = Some r"
| "assign_all (kv # kvs) r =
     (case assign_path r (map getkey (js_split ''.'' (fst kv))) (snd kv) of
        None \<Rightarrow> None
      | Some r1 \<Rightarrow> assign_all kvs r1)"

text \<open>
  \<open>unflatten(target)\<close>: anything but a plain object is returned as it is; the keys are
  visited from the shortest to the longest, keys of one length in enumeration order,
  and each value is unflattened itself.
\<close>

fun unflatten :: "jsval \<Rightarrow> jsval option" where
  "unflatten (JObj kvs) =
     (if buffer_like (JObj kvs) then None
      else assign_all (sort_key (\<lambda>kv. length (fst kv))
                         (map (\<lambda>kv. (fst kv, unflatten (snd kv))) kvs))
             (JObj []))"
| "unflatten v = Some v"

definition unflat :: "jsval \<Rightarrow> jsval option" where
  "unflat v = unflatten v"

subsection \<open>set, get, hmset, hgetall\<close>

text \<open>\<open>set\<close> is \<open>set_command\<close> here, as \<open>size\<close> is \<open>size_command\<close>.\<close>

text \<open>The callback the last function argument chooses (lines 95 to 99).\<close>

definition pick_callback :: "jsval list \<Rightarrow> jsval" where
  "pick_callback cands = foldl (\<lambda>cb c. if isFunction c then c else cb) commands_noop cands"

text \<open>\<open>return (f && f())\<close> for a function \<open>f\<close>: nothing is sent, the call's value is returned.\<close>

definition return_call :: "jsval \<Rightarrow> state \<Rightarrow> 'c \<Rightarrow> 'c run" where
  "return_call f st srv =
     \<lparr> calls = fst (invoke f []), sent = [], thrown = snd (invoke f []),
       returns = (case fst (invoke f []) of [c] \<Rightarrow> Some c | _ \<Rightarrow> None),
       after = st, server = srv \<rparr>"

text \<open>The arguments of the \<open>set\<close> request (lines 87 to 91 and 106 to 107).\<close>

definition set_args :: "string \<Rightarrow> jsval \<Rightarrow> jsval \<Rightarrow> jsval \<Rightarrow> jsval \<Rightarrow> jsval list" where
  "set_args k sval expiry time strategy =
     compact [JStr k, sval,
              if truthy expiry \<and> isString expiry then expiry else JUndefined,
              if truthy time \<and> isNumber time then time else JUndefined,
              if truthy strategy \<and> isString strategy then strategy else JUndefined]"

definition set_command :: "'c store_client \<Rightarrow> jsval \<Rightarrow> jsval \<Rightarrow> jsval \<Rightarrow> jsval \<Rightarrow> jsval \<Rightarrow> jsval
                     \<Rightarrow> state \<Rightarrow> 'c \<Rightarrow> 'c run option" where
  "set_command cl k0 val expiry time strategy done st srv =
     (if isFunction k0 then Some (return_call k0 st srv)
      else if isFunction val then Some (return_call val st srv)
      else (case client st of
              Inl e \<Rightarrow> Some (throw_run e st srv)
            | Inr (c, st1) \<Rightarrow>
                (case key [k0] st1 of
                   None \<Rightarrow> None
                 | Some (k, st2) \<Rightarrow>
                     (case stringify val of
                        None \<Rightarrow> None
                      | Some sval \<Rightarrow>
                          (case cl (Single (''set'', set_args k sval expiry time strategy)) srv of
                             None \<Rightarrow> None
                           | Some ((error, reply), srv1) \<Rightarrow>
                               Some (called (pick_callback [expiry, time, strategy, done])
                                       [reply_error error, AVal val]
                                       [Single (''set'', set_args k sval expiry time strategy)]
                                       st2 srv1))))))"

definition get :: "'c store_client \<Rightarrow> jsval \<Rightarrow> jsval \<Rightarrow> state \<Rightarrow> 'c \<Rightarrow> 'c run option" where
  "get cl k0 done st srv =
     (if isFunction k0 then Some (return_call k0 st srv)
      else (case client st of
              Inl e \<Rightarrow> Some (throw_run e st srv)
            | Inr (c, st1) \<Rightarrow>
                (case key [k0] st1 of
                   None \<Rightarrow> None
                 | Some (k, st2) \<Rightarrow>
                     (case cl (Single (''get'', compact [JStr k])) srv of
                        None \<Rightarrow> None
                      | Some ((error, reply), srv1) \<Rightarrow>
                          (case parse reply of
                             None \<Rightarrow> None
                           | Some v \<Rightarrow>
                               Some (called (pick_callback [done]) [reply_error error, AVal v]
                                       [Single (''get'', compact [JStr k])] st2 srv1))))))"

definition hmset :: "'c store_client \<Rightarrow> jsval \<Rightarrow> jsval \<Rightarrow> jsval \<Rightarrow> state \<Rightarrow> 'c \<Rightarrow> 'c run option" where
  "hmset cl k0 val done st srv =
     (if isFunction k0 then Some (return_call k0 st srv)
      else if isFunction val then Some (return_call val st srv)
      else (case client st of
              Inl e \<Rightarrow> Some (throw_run e st srv)
            | Inr (c, st1) \<Rightarrow>
                (case key [k0] st1 of
                   None \<Rightarrow> None
                 | Some (k, st2) \<Rightarrow>
                     (case flat val of
                        None \<Rightarrow> None
                      | Some (Inl e) \<Rightarrow> Some (throw_run e st2 srv)
                      | Some (Inr v) \<Rightarrow>
                          (case cl (Single (''hmset'', compact [JStr k, v])) srv of
                             None \<Rightarrow> None
                           | Some ((error, reply), srv1) \<Rightarrow>
                               Some (called (pick_callback [done]) [reply_error error, AVal val]
                                       [Single (''hmset'', compact [JStr k, v])] st2 srv1))))))"

definition hgetall :: "'c store_client \<Rightarrow> jsval \<Rightarrow> jsval \<Rightarrow> state \<Rightarrow> 'c \<Rightarrow> 'c run option" where
  "hgetall cl k0 done st srv =
     (if isFunction k0 then Some (return_call k0 st srv)
      else (case client st of
              Inl e \<Rightarrow> Some (throw_run e st srv)
            | Inr (c, st1) \<Rightarrow>
                (case key [k0] st1 of
                   None \<Rightarrow> None
                 | Some (k, st2) \<Rightarrow>
                     (case cl (Single (''hgetall'', compact [JStr k])) srv of
                        None \<Rightarrow> None
                      | Some ((error, reply), srv1) \<Rightarrow>
                          (case unflat reply of
                             None \<Rightarrow> None
                           | Some v \<Rightarrow>
                               Some (called (pick_callback [done]) [reply_error error, AVal v]
                                       [Single (''hgetall'', compact [JStr k])] st2 srv1))))))"

section \<open>A reference store\<close>

text \<open>
  A model of one store behind the client library, for the claims that speak of what is
  in the store: string and hash entries in the order they were made, the pattern
  matching of \<open>KEYS\<close> as a parameter, and a fault that makes every request fail with an
  error. It answers the requests the wrapper sends in the forms described here and is
  silent (\<open>None\<close>) on every other.
\<close>

datatype entry = SString string | SHash "(string \<times> string) list"

record redis_server =
  entries :: "(string \<times> entry) list"
  fault :: "string option"
  glob :: "string \<Rightarrow> string \<Rightarrow> bool"
  info_reply :: jsval

text \<open>The string the client library sends for an argument, where the model says it.\<close>

fun wire_string :: "jsval \<Rightarrow> string option" where
  "wire_string (JStr s) = Some s"
| "wire_string (JNum n) = Some (show_int (sint n))"
| "wire_string (JBool b) = Some (if b then ''true'' else ''false'')"
| "wire_string v = None"

fun wire_fields :: "(string \<times> jsval) list \<Rightarrow> (string \<times> string) list option" where
  "wire_fields [] = Some []"
| "wire_fields (kv # kvs) =
     (case wire_string (snd kv) of
        None \<Rightarrow> None
      | Some s \<Rightarrow> (case wire_fields kvs of None \<Rightarrow> None | Some r \<Rightarrow> Some ((fst kv, s) # r)))"

text \<open>
  The object the client library makes of the fields of a hash, each written onto the
  object in turn; a field \<open>__proto__\<close> is not described.
\<close>

definition reply_object :: "(string \<times> string) list \<Rightarrow> jsval option" where
  "reply_object h =
     (if map_of h ''__proto__'' \<noteq> None then None
      else Some (JObj (foldl (\<lambda>obj f. js_put obj (fst f) (JStr (snd f))) [] h)))"

definition lua_plain :: "char \<Rightarrow> bool" where
  "lua_plain c = (32 \<le> (of_char c :: nat) \<and> (of_char c :: nat) \<le> 126 \<and> c \<noteq> CHR 0x22 \<and> c \<noteq> CHR 0x5C)"

definition script_head :: string where
  \<open>script_head = ''return #redis.pcall("keys", "''\<close>

definition script_tail :: string where
  \<open>script_tail = ''")''\<close>

text \<open>
  The pattern of a script \<open>return #redis.pcall("keys", "<pattern>")\<close> whose pattern is
  plain text for a Lua string.
\<close>

definition script_pattern :: "string \<Rightarrow> string option" where
  "script_pattern s =
     (let n = length script_head; m = length s
      in if n + 2 \<le> m \<and> take n s = script_head \<and> drop (m - 2) s = script_tail
            \<and> list_all lua_plain (take (m - 2 - n) (drop n s))
         then Some (take (m - 2 - n) (drop n s))
         else None)"

definition matching_keys :: "redis_server \<Rightarrow> string \<Rightarrow> string list" where
  "matching_keys srv p = filter (glob srv p) (map fst (entries srv))"

definition wrong_type :: string where
  "wrong_type = ''WRONGTYPE Operation against a key holding the wrong kind of value''"

definition wrong_arity :: "string \<Rightarrow> string" where
  "wrong_arity name = ''ERR wrong number of arguments for '' @ [CHR 0x27] @ name @ [CHR 0x27] @ '' command''"

text \<open>One command on a store without a fault.\<close>

definition run_command :: "command \<Rightarrow> redis_server \<Rightarrow> (reply \<times> redis_server) option" where
  "run_command cmd srv =
     (case cmd of (name, args) \<Rightarrow>
        if name = ''set'' then
          (case args of
             [JStr k, JStr v] \<Rightarrow>
               Some ((None, JStr ''OK''), srv \<lparr> entries := assoc_set (entries srv) k (SString v) \<rparr>)
           | [JStr k] \<Rightarrow> Some ((Some (wrong_arity name), JUndefined), srv)
           | _ \<Rightarrow> None)
        else if name = ''get'' then
          (case args of
             [JStr k] \<Rightarrow>
               (case map_of (entries srv) k of
                  None \<Rightarrow> Some ((None, JNull), srv)
                | Some (SString v) \<Rightarrow> Some ((None, JStr v), srv)
                | Some (SHash h) \<Rightarrow> Some ((Some wrong_type, JUndefined), srv))
           | _ \<Rightarrow> None)
        else if name = ''hmset'' then
          (case args of
             [JStr k, JObj flds] \<Rightarrow>
               (if flds = [] then Some ((Some (wrong_arity name), JUndefined), srv)
                else (case wire_fields flds of
                        None \<Rightarrow> None
                      | Some fs \<Rightarrow>
                          (case map_of (entries srv) k of
                             Some (SString v) \<Rightarrow> Some ((Some wrong_type, JUndefined), srv)
                           | Some (SHash h) \<Rightarrow>
                               Some ((None, JStr ''OK''),
                                     srv \<lparr> entries := assoc_set (entries srv) k
                                              (SHash (foldl (\<lambda>a f. assoc_set a (fst f) (snd f)) h fs)) \<rparr>)
                           | None \<Rightarrow>
                               Some ((None, JStr ''OK''),
                                     srv \<lparr> entries := assoc_set (entries srv) k
                                              (SHash (foldl (\<lambda>a f. assoc_set a (fst f) (snd f)) [] fs)) \<rparr>))))
           | _ \<Rightarrow> None)
        else if name = ''hgetall'' then
          (case args of
             [JStr k] \<Rightarrow>
               (case map_of (entries srv) k of
                  None \<Rightarrow> Some ((None, JNull), srv)
                | Some (SString v) \<Rightarrow> Some ((Some wrong_type, JUndefined), srv)
                | Some (SHash h) \<Rightarrow>
                    (case reply_object h of
                       None \<Rightarrow> None
                     | Some obj \<Rightarrow> Some ((None, obj), srv)))
           | _ \<Rightarrow> None)
        else if name = ''keys'' then
          (case args of
             [JStr p] \<Rightarrow> Some ((None, JArr (map JStr (matching_keys srv p))), srv)
           | _ \<Rightarrow> None)
        else if name = ''del'' then
          (case args of
             [JStr k] \<Rightarrow>
               Some ((None, JNum (if map_of (entries srv) k = None then 0 else 1)),
                     srv \<lparr> entries := filter (\<lambda>e. fst e \<noteq> k) (entries srv) \<rparr>)
           | _ \<Rightarrow> None)
        else if name = ''eval'' then
          (case args of
             [JStr script, JNum z] \<Rightarrow>
               (if z = 0 then
                  (case script_pattern script of
                     None \<Rightarrow> None
                   | Some p \<Rightarrow>
                       (if int (length (matching_keys srv p)) < 9007199254740992
                        then Some ((None, JNum (of_nat (length (matching_keys srv p)))), srv)
                        else None))
                else None)
           | _ \<Rightarrow> None)
        else if name = ''info'' then
          (case args of [] \<Rightarrow> Some ((None, info_reply srv), srv) | _ \<Rightarrow> None)
        else None)"

text \<open>
  The commands of a transaction in order, with their replies; a command that fails
  inside a transaction is not described.
\<close>

fun run_transaction :: "command list \<Rightarrow> redis_server \<Rightarrow> (jsval list \<times> redis_server) option" where
  "run_transaction [] srv = Some ([], srv)"
| "run_transaction (c # cs) srv =
     (case run_command c srv of
        None \<Rightarrow> None
      | Some ((error, r), srv1) \<Rightarrow>
          (if error \<noteq> None then None
           else (case run_transaction cs srv1 of
                   None \<Rightarrow> None
                 | Some (rs, srv2) \<Rightarrow> Some (r # rs, srv2))))"

definition redis_sim :: "redis_server store_client" where
  "redis_sim req srv =
     (case fault srv of
        Some m \<Rightarrow> Some ((Some m, JUndefined), srv)
      | None \<Rightarrow>
          (case req of
             Single cmd \<Rightarrow> run_command cmd srv
           | Transaction cmds \<Rightarrow>
               (case run_transaction cmds srv of
                  None \<Rightarrow> None
                | Some (rs, srv1) \<Rightarrow> Some ((None, JArr rs), srv1))))"

text \<open>A pattern matcher for examples: \<open>*\<close> matches any text, \<open>?\<close> any one character.\<close>

fun star_glob :: "string \<Rightarrow> string \<Rightarrow> bool" where
  "star_glob [] s = (s = [])"
| "star_glob (p # ps) [] = (p = CHR ''*'' \<and> star_glob ps [])"
| "star_glob (p # ps) (c # cs) =
     (if p = CHR ''*'' then star_glob ps (c # cs) \<or> star_glob (p # ps) cs
      else if p = CHR ''?'' then star_glob ps cs
      else p = c \<and> star_glob ps cs)"

section \<open>Sequences of calls\<close>

text \<open>
  The calls that touch the connection state, with what each returns: \<open>Configure\<close> is the
  module function of index.js storing merged options in \<open>defaults\<close> (its \<open>init()\<close> is a
  call of its own here).
\<close>

datatype api = Init | Client | Pubsub | CreateClient "settings option" | Reset | Configure settings

datatype api_result = RClient nat | RPair nat nat | RThrow err | RNothing

fun step :: "api \<Rightarrow> state \<Rightarrow> api_result \<times> state" where
  "step Init st = (case init st of Inl e \<Rightarrow> (RThrow e, st) | Inr (c, st1) \<Rightarrow> (RClient c, st1))"
| "step Client st = (case client st of Inl e \<Rightarrow> (RThrow e, st) | Inr (c, st1) \<Rightarrow> (RClient c, st1))"
| "step Pubsub st = (case pubsub st of Inl e \<Rightarrow> (RThrow e, st) | Inr ((p, s), st1) \<Rightarrow> (RPair p s, st1))"
| "step (CreateClient m) st =
     (case createClient m st of Inl e \<Rightarrow> (RThrow e, st) | Inr (c, st1) \<Rightarrow> (RClient c, st1))"
| "step Reset st = (RNothing, reset st)"
| "step (Configure d) st = (RNothing, st \<lparr> defaults := d \<rparr>)"

fun run_calls :: "api list \<Rightarrow> state \<Rightarrow> api_result list \<times> state" where
  "run_calls [] st = ([], st)"
| "run_calls (a # as) st =
     (let (r, st1) = step a st; (rs, st2) = run_calls as st1 in (r # rs, st2))"

text \<open>Whether two calls are calls of the same cached thing.\<close>

fun same_kind :: "api \<Rightarrow> api \<Rightarrow> bool" where
  "same_kind Init Init = True"
| "same_kind Init Client = True"
| "same_kind Client Init = True"
| "same_kind Client Client = True"
| "same_kind Pubsub Pubsub = True"
| "same_kind a b = False"

fun is_reset :: "api \<Rightarrow> bool" where
  "is_reset Reset = True"
| "is_reset a = False"

fun is_throw :: "api_result \<Rightarrow> bool" where
  "is_throw (RThrow e) = True"
| "is_throw r = False"






section \<open>Invariants of the connection state\<close>

text \<open>
  What a first successful call of \<open>init\<close>, \<open>client\<close> or \<open>pubsub\<close> establishes for the
  calls that follow it.
\<close>

definition holds :: "api \<Rightarrow> api_result \<Rightarrow> state \<Rightarrow> bool" where
  "holds a r st =
     (case a of
        Pubsub \<Rightarrow> (case r of RPair p s \<Rightarrow> publisher st = Some p \<and> subscriber st = Some s | _ \<Rightarrow> False)
      | _ \<Rightarrow> (case r of RClient c \<Rightarrow> p_client st = Some c \<and> publisher st \<noteq> None \<and> subscriber st \<noteq> None
               | _ \<Rightarrow> False))"


section \<open>Properties\<close>

subsection \<open>Connection caching\<close>

lemma createClient_keeps:
  assumes "createClient m st = Inr (c, st1)"
  shows "p_client st1 = p_client st \<and> publisher st1 = publisher st \<and> subscriber st1 = subscriber st"
  using assms
  by (auto simp: createClient_def Let_def split: option.splits sum.splits redis_setting.splits)

lemma pubsub_keeps:
  assumes "pubsub st = Inr (ps, st1)"
  shows "p_client st1 = p_client st \<and> (publisher st \<noteq> None \<longrightarrow> publisher st1 = publisher st)
       \<and> (subscriber st \<noteq> None \<longrightarrow> subscriber st1 = subscriber st)"
  using assms createClient_keeps
  apply (simp add: pubsub_def split: option.splits sum.splits prod.splits)
     apply fastforce+
  done

lemma pubsub_cached:
  assumes "pubsub st = Inr ((p, s), st1)"
  shows "publisher st1 = Some p \<and> subscriber st1 = Some s"
  using assms createClient_keeps
  apply (simp add: pubsub_def split: option.splits sum.splits prod.splits)
     apply fastforce+
  done

lemma init_keeps:
  assumes "init st = Inr (c, st1)"
  shows "(p_client st \<noteq> None \<longrightarrow> p_client st1 = p_client st) \<and> (publisher st \<noteq> None \<longrightarrow> publisher st1 = publisher st)
       \<and> (subscriber st \<noteq> None \<longrightarrow> subscriber st1 = subscriber st)"
proof (cases "p_client st")
  case None
  with assms obtain c0 sa ps where cc: "createClient None st = Inr (c0, sa)"
    and ps: "pubsub (sa \<lparr> p_client := Some c0, trace := trace sa @ [SetId c0 (now sa)] \<rparr>) = Inr (ps, st1)"
    by (auto simp: init_def split: sum.splits prod.splits)
  from createClient_keeps[OF cc] pubsub_keeps[OF ps] None show ?thesis by simp
next
  case (Some c0)
  with assms obtain ps where ps: "pubsub st = Inr (ps, st1)"
    by (auto simp: init_def split: sum.splits prod.splits)
  from pubsub_keeps[OF ps] show ?thesis by simp
qed

lemma init_cached:
  assumes "init st = Inr (c, st1)"
  shows "p_client st1 = Some c \<and> publisher st1 \<noteq> None \<and> subscriber st1 \<noteq> None"
proof (cases "p_client st")
  case None
  with assms obtain sa ps where cc: "createClient None st = Inr (c, sa)"
    and ps: "pubsub (sa \<lparr> p_client := Some c, trace := trace sa @ [SetId c (now sa)] \<rparr>) = Inr (ps, st1)"
    by (auto simp: init_def split: sum.splits prod.splits)
  obtain p s where "ps = (p, s)" by (cases ps)
  with pubsub_keeps[OF ps] pubsub_cached[of _ p s st1] ps show ?thesis by simp
next
  case (Some c0)
  with assms obtain ps where ps: "pubsub st = Inr (ps, st1)" and c: "c = c0"
    by (auto simp: init_def split: sum.splits prod.splits)
  obtain p s where "ps = (p, s)" by (cases ps)
  with pubsub_keeps[OF ps] pubsub_cached[of _ p s st1] ps Some c show ?thesis by simp
qed

lemma pubsub_hit:
  assumes "publisher st = Some p" "subscriber st = Some s"
  shows "pubsub st = Inr ((p, s), st)"
  using assms by (simp add: pubsub_def)

lemma init_hit:
  assumes "p_client st = Some c" "publisher st = Some p" "subscriber st = Some s"
  shows "init st = Inr (c, st)"
  using assms by (simp add: init_def pubsub_def)

lemma first_call_holds:
  assumes "step a st = (r, st1)" "\<not> is_throw r" "a = Init \<or> a = Client \<or> a = Pubsub"
  shows "holds a r st1"
proof -
  from assms(3) consider "a = Init \<or> a = Client" | "a = Pubsub" by blast
  then show ?thesis
  proof cases
    case 1
    with assms(1,2) obtain c where "init st = Inr (c, st1)" "r = RClient c"
      by (auto simp: client_def split: sum.splits)
    with init_cached[of st c st1] 1 show ?thesis by (auto simp: holds_def)
  next
    case 2
    with assms(1,2) obtain p s where "pubsub st = Inr ((p, s), st1)" "r = RPair p s"
      by (auto split: sum.splits)
    with pubsub_cached[of st p s st1] 2 show ?thesis by (simp add: holds_def)
  qed
qed

lemma keeps_holds:
  assumes "holds a0 r0 st"
    and "p_client st \<noteq> None \<longrightarrow> p_client st1 = p_client st"
    and "publisher st \<noteq> None \<longrightarrow> publisher st1 = publisher st"
    and "subscriber st \<noteq> None \<longrightarrow> subscriber st1 = subscriber st"
  shows "holds a0 r0 st1"
  using assms by (auto simp: holds_def split: api.splits api_result.splits)

lemma step_keeps_holds:
  assumes "holds a0 r0 st" "step a st = (r, st1)" "\<not> is_reset a"
  shows "holds a0 r0 st1"
proof (cases a)
  case Init
  show ?thesis
  proof (cases "init st")
    case (Inl e) with Init assms(1,2) show ?thesis by simp
  next
    case (Inr x)
    with Init assms(2) obtain c where "init st = Inr (c, st1)" by (cases x) auto
    from init_keeps[OF this] keeps_holds[OF assms(1)] show ?thesis by blast
  qed
next
  case Client
  show ?thesis
  proof (cases "init st")
    case (Inl e) with Client assms(1,2) show ?thesis by (simp add: client_def)
  next
    case (Inr x)
    with Client assms(2) obtain c where "init st = Inr (c, st1)" by (cases x) (auto simp: client_def)
    from init_keeps[OF this] keeps_holds[OF assms(1)] show ?thesis by blast
  qed
next
  case Pubsub
  show ?thesis
  proof (cases "pubsub st")
    case (Inl e) with Pubsub assms(1,2) show ?thesis by simp
  next
    case (Inr x)
    with Pubsub assms(2) obtain ps where "pubsub st = Inr (ps, st1)" by (cases x) auto
    from pubsub_keeps[OF this] keeps_holds[OF assms(1)] show ?thesis by blast
  qed
next
  case (CreateClient m)
  show ?thesis
  proof (cases "createClient m st")
    case (Inl e) with CreateClient assms(1,2) show ?thesis by simp
  next
    case (Inr x)
    with CreateClient assms(2) obtain c where "createClient m st = Inr (c, st1)" by (cases x) auto
    from createClient_keeps[OF this] keeps_holds[OF assms(1)] show ?thesis by simp
  qed
next
  case Reset
  with assms(3) show ?thesis by simp
next
  case (Configure d)
  with assms(2) have "st1 = st \<lparr> defaults := d \<rparr>" by simp
  with keeps_holds[OF assms(1), of st1] show ?thesis by simp
qed

lemma step_same_kind:
  assumes "holds a0 r0 st" "step a st = (r, st1)" "same_kind a a0"
  shows "r = r0 \<and> st1 = st"
  using assms
  by (cases a; cases a0) (auto simp: holds_def client_def init_hit pubsub_hit split: api_result.splits)

lemma run_calls_snoc:
  "run_calls (xs @ [a]) st =
     (fst (run_calls xs st) @ [fst (step a (snd (run_calls xs st)))],
      snd (step a (snd (run_calls xs st))))"
proof (induction xs arbitrary: st)
  case Nil
  then show ?case by (simp add: split_beta del: step.simps)
next
  case (Cons x xs)
  show ?case by (simp add: split_beta Cons.IH del: step.simps)
qed

lemma run_calls_fst_append:
  "fst (run_calls (xs @ ys) s) = fst (run_calls xs s) @ fst (run_calls ys (snd (run_calls xs s)))"
  by (induction xs arbitrary: s) (simp_all add: split_beta del: step.simps)

lemma run_calls_length: "length (fst (run_calls xs s)) = length xs"
  by (induction xs arbitrary: s) (simp_all add: split_beta del: step.simps)

lemma run_keeps_holds:
  assumes "holds a0 r0 st" "\<forall>a \<in> set xs. \<not> is_reset a"
  shows "holds a0 r0 (snd (run_calls xs st))"
  using assms
proof (induction xs arbitrary: st)
  case Nil
  then show ?case by simp
next
  case (Cons x xs)
  have s: "step x st = (fst (step x st), snd (step x st))" by (rule prod.collapse[symmetric])
  from Cons.prems(2) have nr: "\<not> is_reset x" "\<forall>a \<in> set xs. \<not> is_reset a" by simp_all
  have "holds a0 r0 (snd (step x st))" by (rule step_keeps_holds[OF Cons.prems(1) s nr(1)])
  from Cons.IH[OF this nr(2)] show ?case by (simp add: split_beta del: step.simps)
qed

text \<open>
  C4. Connection-instance caching. Let a first call of \<open>init()\<close>, \<open>client()\<close> or
  \<open>pubsub()\<close> return without throwing, and let any calls follow it before the next
  reset (calls of \<open>init\<close>, \<open>client\<close>, \<open>pubsub\<close>, \<open>createClient\<close> and changes of the
  options, in any order). Then before each later call the cached references still hold
  what the first call returned, and each later call of the same kind returns exactly
  that and leaves the whole state as it found it: it creates no client, whatever was
  called in between.
\<close>

theorem connection_caching:
  assumes "step a0 st = (r0, st1)" "\<not> is_throw r0" "a0 = Init \<or> a0 = Client \<or> a0 = Pubsub"
      and "\<forall>a \<in> set apis. \<not> is_reset a"
  shows "\<forall>i < length apis.
           holds a0 r0 (snd (run_calls (take i apis) st1))
         \<and> (same_kind (apis ! i) a0 \<longrightarrow>
               fst (run_calls apis st1) ! i = r0
             \<and> fst (step (apis ! i) (snd (run_calls (take i apis) st1))) = r0
             \<and> snd (run_calls (take (Suc i) apis) st1) = snd (run_calls (take i apis) st1))"
proof (intro allI impI)
  fix i assume i: "i < length apis"
  let ?pre = "take i apis" and ?a = "apis ! i"
  let ?s = "snd (run_calls ?pre st1)"
  have h0: "holds a0 r0 st1" by (rule first_call_holds[OF assms(1,2,3)])
  have npre: "\<forall>a \<in> set ?pre. \<not> is_reset a" using assms(4) by (meson in_set_takeD)
  have h: "holds a0 r0 ?s" by (rule run_keeps_holds[OF h0 npre])
  have tk: "take (Suc i) apis = ?pre @ [?a]" using i by (rule take_Suc_conv_app_nth)
  have st: "snd (run_calls (take (Suc i) apis) st1) = snd (step ?a ?s)"
    unfolding tk run_calls_snoc by simp
  have ap: "apis = take (Suc i) apis @ drop (Suc i) apis" by simp
  have fs: "fst (run_calls (take (Suc i) apis) st1) ! i = fst (step ?a ?s)"
    unfolding tk run_calls_snoc using i by (simp add: nth_append run_calls_length)
  have "fst (run_calls apis st1) ! i = fst (run_calls (take (Suc i) apis @ drop (Suc i) apis) st1) ! i" by simp
  also have "\<dots> = fst (run_calls (take (Suc i) apis) st1) ! i"
    unfolding run_calls_fst_append using i by (simp add: nth_append run_calls_length del: append_take_drop_id)
  finally have whole: "fst (run_calls apis st1) ! i = fst (step ?a ?s)" using fs by simp
  show "holds a0 r0 ?s \<and> (same_kind ?a a0 \<longrightarrow>
               fst (run_calls apis st1) ! i = r0
             \<and> fst (step ?a ?s) = r0
             \<and> snd (run_calls (take (Suc i) apis) st1) = ?s)"
  proof (intro conjI impI)
    show "holds a0 r0 ?s" by (rule h)
  next
    assume k: "same_kind ?a a0"
    have c: "step ?a ?s = (fst (step ?a ?s), snd (step ?a ?s))" by (rule prod.collapse[symmetric])
    from step_same_kind[OF h c k] have e: "fst (step ?a ?s) = r0" "snd (step ?a ?s) = ?s" by blast+
    show "fst (run_calls apis st1) ! i = r0" using whole e by simp
    show "fst (step ?a ?s) = r0" by (rule e(1))
    show "snd (run_calls (take (Suc i) apis) st1) = ?s" using st e by simp
  qed
qed

theorem connection_caching_witness:
  "fst (run_calls [Client, Pubsub, CreateClient None, Init] (snd (step Init (loaded 0 (\<lambda>n. ''u''))))) ! 3
     = RClient 0
   \<and> snd (run_calls (take (Suc 3) [Client, Pubsub, CreateClient None, Init]) (snd (step Init (loaded 0 (\<lambda>n. ''u'')))))
     = snd (run_calls (take 3 [Client, Pubsub, CreateClient None, Init]) (snd (step Init (loaded 0 (\<lambda>n. ''u'')))))
   \<and> p_clients (snd (run_calls [Client, Pubsub, CreateClient None, Init] (snd (step Init (loaded 0 (\<lambda>n. ''u''))))))
     = [0, 1, 2, 3]"
proof -
  let ?st = "loaded 0 (\<lambda>n. ''u'')"
  let ?a = "[Client, Pubsub, CreateClient None, Init]"
  have r0: "fst (step Init ?st) = RClient 0"
    by (simp add: loaded_def init_def pubsub_def createClient_def default_settings_def js_or_def Let_def)
  have nt: "\<not> is_throw (fst (step Init ?st))" unfolding r0 by simp
  have k: "Init = Init \<or> Init = Client \<or> Init = Pubsub" by simp
  have na: "\<forall>a \<in> set ?a. \<not> is_reset a" by simp
  have sa: "same_kind (?a ! 3) Init" "3 < length ?a" by simp_all
  have s0: "step Init ?st = (fst (step Init ?st), snd (step Init ?st))" by (rule prod.collapse[symmetric])
  note A = connection_caching[OF s0 nt k na]
  from A sa have "fst (run_calls ?a (snd (step Init ?st))) ! 3 = fst (step Init ?st)"
    and "snd (run_calls (take (Suc 3) ?a) (snd (step Init ?st))) = snd (run_calls (take 3 ?a) (snd (step Init ?st)))"
    by blast+
  moreover have "p_clients (snd (run_calls ?a (snd (step Init ?st)))) = [0, 1, 2, 3]"
    by (simp add: loaded_def init_def client_def pubsub_def createClient_def default_settings_def js_or_def Let_def)
  ultimately show ?thesis unfolding r0 by blast
qed

subsection \<open>Shutdown\<close>

















subsection \<open>Keys\<close>

lemma join_strings_Cons: "ys \<noteq> [] \<Longrightarrow> join_strings sep (x # ys) = x @ sep @ join_strings sep ys"
  by (cases ys) simp_all

lemma those_length: "those xs = Some ys \<Longrightarrow> length ys = length xs"
  by (induction xs arbitrary: ys) (auto split: option.splits)

lemma js_join_Cons:
  assumes "ys \<noteq> []"
  shows "js_join sep (JStr p # ys) = map_option (\<lambda>t. p @ sep @ t) (js_join sep ys)"
proof (cases "those (map element_string ys)")
  case None
  then show ?thesis by (simp add: js_join_def element_string_def)
next
  case (Some a)
  from those_length[OF Some] assms have "a \<noteq> []" by auto
  with Some show ?thesis by (simp add: js_join_def element_string_def join_strings_Cons)
qed

lemma those_strings: "those (map (element_string \<circ> JStr) ss) = Some ss"
  by (induction ss) (simp_all add: element_string_def)

lemma js_join_strings: "js_join sep (map JStr ss) = Some (join_strings sep ss)"
  by (simp add: js_join_def those_strings)

lemma split_go_skip:
  "c \<notin> set p \<Longrightarrow> split_go [c] acc (p @ rest) = split_go [c] (rev p @ acc) rest"
  by (induction p arbitrary: acc) auto

lemma split_go_none: "c \<notin> set u \<Longrightarrow> split_go [c] acc u = [rev acc @ u]"
  using split_go_skip[of c u acc "[]"] by simp

lemma split_two:
  assumes "c \<notin> set p" "c \<notin> set u"
  shows "js_split [c] (p @ [c] @ u) = [p, u]"
proof -
  have "split_go [c] [] (p @ (c # u)) = split_go [c] (rev p) (c # u)"
    using split_go_skip[OF assms(1), of "[]" "c # u"] by simp
  also have "\<dots> = p # split_go [c] [] u" by simp
  also have "\<dots> = [p, u]" using split_go_none[OF assms(2), of "[]"] by simp
  finally show ?thesis by (simp add: js_split_def)
qed

lemma key_empty:
  "concat_args args = [] \<Longrightarrow>
     key args st = Some (prefix (defaults st) @ separator (defaults st) @ uuid_v1 st (uuid_count st),
                         st \<lparr> uuid_count := Suc (uuid_count st) \<rparr>)"
  by (simp add: key_def js_join_def element_string_def)

lemma key_nonempty:
  "concat_args args \<noteq> [] \<Longrightarrow>
     key args st = map_option (\<lambda>t. (prefix (defaults st) @ separator (defaults st) @ t, st))
                     (js_join (separator (defaults st)) (concat_args args))"
  by (simp add: key_def Let_def js_join_Cons option.map_comp comp_def)

text \<open>
  C10. A key that \<open>key(...args)\<close> returns begins with the prefix followed by the
  separator. Called with no argument, or with empty lists only, it returns the prefix,
  the separator and the next value of \<open>uuid.v1()\<close>. That key splits on the separator
  into the prefix and the uuid when the separator is one character that occurs
  neither in the prefix nor in the uuid.
\<close>

theorem key_prefixed:
  "(key args st = Some (k, st1) \<longrightarrow>
      (\<exists>rest. k = prefix (defaults st) @ separator (defaults st) @ rest))
   \<and> (concat_args args = [] \<longrightarrow>
        key args st = Some (prefix (defaults st) @ separator (defaults st) @ uuid_v1 st (uuid_count st),
                            st \<lparr> uuid_count := Suc (uuid_count st) \<rparr>))
   \<and> (concat_args args = [] \<and> separator (defaults st) = [c] \<and> c \<notin> set (prefix (defaults st))
        \<and> c \<notin> set (uuid_v1 st (uuid_count st)) \<and> key args st = Some (k, st1) \<longrightarrow>
        js_split (separator (defaults st)) k = [prefix (defaults st), uuid_v1 st (uuid_count st)])"
proof -
  let ?p = "prefix (defaults st)" and ?s = "separator (defaults st)" and ?u = "uuid_v1 st (uuid_count st)"
  have 1: "key args st = Some (k, st1) \<longrightarrow> (\<exists>rest. k = ?p @ ?s @ rest)"
  proof (cases "concat_args args = []")
    case True
    then show ?thesis using key_empty[OF True, of st] by auto
  next
    case False
    then show ?thesis using key_nonempty[OF False, of st] by auto
  qed
  have 3: "concat_args args = [] \<and> ?s = [c] \<and> c \<notin> set ?p \<and> c \<notin> set ?u \<and> key args st = Some (k, st1)
             \<longrightarrow> js_split ?s k = [?p, ?u]"
    using key_empty[of args st] split_two[of c ?p ?u] by auto
  show ?thesis using 1 key_empty[of args st] 3 by blast
qed

text \<open>
  Under the default options the key of a call without arguments is \<open>r:\<close> and the
  uuid, and splits on \<open>:\<close> into the two.
\<close>

theorem key_prefixed_witness:
  "key [] (loaded 0 (\<lambda>n. ''6c84fb90-12c4-11e1-840d-7b25c5ee775a''))
     = Some (''r:6c84fb90-12c4-11e1-840d-7b25c5ee775a'',
             (loaded 0 (\<lambda>n. ''6c84fb90-12c4-11e1-840d-7b25c5ee775a'')) \<lparr> uuid_count := 1 \<rparr>)
   \<and> js_split '':'' ''r:6c84fb90-12c4-11e1-840d-7b25c5ee775a''
       = [''r'', ''6c84fb90-12c4-11e1-840d-7b25c5ee775a'']"
  using key_prefixed[of "[]" "loaded 0 (\<lambda>n. ''6c84fb90-12c4-11e1-840d-7b25c5ee775a'')"
      "''r:6c84fb90-12c4-11e1-840d-7b25c5ee775a''"
      "(loaded 0 (\<lambda>n. ''6c84fb90-12c4-11e1-840d-7b25c5ee775a'')) \<lparr> uuid_count := 1 \<rparr>"
      "CHR '':''"]
  by (simp add: loaded_def default_settings_def concat_args_def)

text \<open>
  With the prefix \<open>q\<close> and the separator \<open>-\<close> the key of a call without arguments
  splits on the separator into six segments, the dashes of the uuid being separators
  too.
\<close>

theorem key_split_counterexample:
  "map_option (\<lambda>r. js_split ''-'' (fst r))
     (key [] ((loaded 0 (\<lambda>n. ''6c84fb90-12c4-11e1-840d-7b25c5ee775a''))
       \<lparr> defaults := default_settings \<lparr> prefix := ''q'', separator := ''-'' \<rparr> \<rparr>))
     = Some [''q'', ''6c84fb90'', ''12c4'', ''11e1'', ''840d'', ''7b25c5ee775a'']"
  by (simp add: key_def loaded_def default_settings_def concat_args_def js_join_def element_string_def js_split_def)

subsection \<open>Function arguments\<close>

text \<open>
  C9. When the key given to \<open>set\<close>, \<open>get\<close>, \<open>hmset\<close> or \<open>hgetall\<close> is a function, and
  when the value given to \<open>set\<close> or \<open>hmset\<close> is a function and the key is not, the
  operation calls that function once without arguments and returns the value of the
  call: it sends no request, throws nothing, and leaves the module state and the store
  as they were.
\<close>

theorem function_argument_returns_call:
  assumes "f = JFun i src"
  shows "set_command cl f val expiry time strategy done st srv = Some (return_call f st srv)
       \<and> get cl f done st srv = Some (return_call f st srv)
       \<and> hmset cl f val done st srv = Some (return_call f st srv)
       \<and> hgetall cl f done st srv = Some (return_call f st srv)
       \<and> (\<not> isFunction k0 \<longrightarrow>
            set_command cl k0 f expiry time strategy done st srv = Some (return_call f st srv)
          \<and> hmset cl k0 f done st srv = Some (return_call f st srv))
       \<and> return_call f st srv
           = \<lparr> calls = [Call i []], sent = [], thrown = None, returns = Some (Call i []),
               after = st, server = srv \<rparr>"
  using assms
  by (simp add: set_command_def get_def hmset_def hgetall_def return_call_def invoke_def)

theorem function_argument_returns_call_witness:
  "get redis_sim (JFun 7 ''function () {}'') JUndefined (loaded 0 (\<lambda>n. []))
       \<lparr> entries = [], fault = None, glob = star_glob, info_reply = JNull \<rparr>
     = Some \<lparr> calls = [Call 7 []], sent = [], thrown = None, returns = Some (Call 7 []),
              after = loaded 0 (\<lambda>n. []),
              server = \<lparr> entries = [], fault = None, glob = star_glob, info_reply = JNull \<rparr> \<rparr>
   \<and> hmset redis_sim (JStr ''k'') (JFun 7 ''function () {}'') JUndefined (loaded 0 (\<lambda>n. []))
       \<lparr> entries = [], fault = None, glob = star_glob, info_reply = JNull \<rparr>
     = Some \<lparr> calls = [Call 7 []], sent = [], thrown = None, returns = Some (Call 7 []),
              after = loaded 0 (\<lambda>n. []),
              server = \<lparr> entries = [], fault = None, glob = star_glob, info_reply = JNull \<rparr> \<rparr>"
  using function_argument_returns_call[of "JFun 7 ''function () {}''" 7 "''function () {}''"
      redis_sim _ _ _ _ JUndefined "loaded 0 (\<lambda>n. [])"
      "\<lparr> entries = [], fault = None, glob = star_glob, info_reply = JNull \<rparr>" "JStr ''k''"]
  by simp

end
